theory Spec2Isabelle
  imports
    Main
    "HOL-Library.Multiset"
    "HOL-Library.Char_ord"
    "HOL-Library.List_Lexorder"
    "HOL-Library.Product_Lexorder"
begin

section \<open>The stored relations of \<open>POSDatabase\<close>\<close>

text \<open>
  \<open>POSDatabase.init_database\<close> creates three tables. Each is modelled as the list of
  its rows in rowid order (the order of a table scan), one record per row, with the
  columns in the order of the \<open>CREATE TABLE\<close> statement. Python integers are \<open>int\<close>.
  A timestamp column holds the text \<open>YYYY-MM-DD HH:MM:SS\<close>, whose resolution is one
  second; texts of this fixed width compare as the instants they denote, so a timestamp
  is modelled as the number of seconds it stands for. Names and dates are the byte
  strings the store compares.
\<close>

type_synonym timestamp = nat

record event_row =
  ev_id :: int
  ev_name :: string
  ev_date :: string
  ev_created_at :: timestamp

record product_row =
  pr_id :: int
  pr_event_id :: int
  pr_name :: string
  pr_stock :: int
  pr_price :: int
  pr_created_at :: timestamp

record sale_row =
  sl_id :: int
  sl_event_id :: int
  sl_product_id :: int
  sl_quantity :: int
  sl_total_price :: int
  sl_sale_time :: timestamp
  sl_cancelled :: bool

text \<open>
  Every \<open>id\<close> column is \<open>INTEGER PRIMARY KEY AUTOINCREMENT\<close>: the store keeps, per
  table, the largest rowid it ever handed out and gives the next insert that number
  plus one, so an identity is never reused, not even after its row was deleted.
\<close>

record database =
  events :: "event_row list"
  products :: "product_row list"
  sales :: "sale_row list"
  seq_events :: int
  seq_products :: int
  seq_sales :: int

definition empty_database :: database where
  "empty_database =
     \<lparr>events = [], products = [], sales = [],
      seq_events = 0, seq_products = 0, seq_sales = 0\<rparr>"

section \<open>The operations of \<open>POSDatabase\<close>\<close>

text \<open>
  Each method opens a connection, runs its statements and commits; the model takes the
  database and returns the database after the commit together with the method's result.
  The wall clock read by an insert is the argument \<open>now\<close>.
\<close>

definition create_event :: "database \<Rightarrow> timestamp \<Rightarrow> string \<Rightarrow> string \<Rightarrow> database \<times> int" where
  "create_event db now name date =
     (let event_id = seq_events db + 1
      in (db\<lparr>events := events db @
                 [\<lparr>ev_id = event_id, ev_name = name, ev_date = date, ev_created_at = now\<rparr>],
              seq_events := event_id\<rparr>,
          event_id))"

text \<open>
  \<open>ORDER BY created_at DESC\<close> names no second key. The store sorts the scanned rows by
  the key alone and leaves rows with equal keys in scan order; \<open>sort_key\<close> is such a
  stable sort, and negating the key gives the descending order.
\<close>

definition get_events :: "database \<Rightarrow> (int \<times> string \<times> string) list" where
  "get_events db =
     map (\<lambda>e. (ev_id e, ev_name e, ev_date e))
       (sort_key (\<lambda>e. - int (ev_created_at e)) (events db))"

definition add_product :: "database \<Rightarrow> timestamp \<Rightarrow> int \<Rightarrow> string \<Rightarrow> int \<Rightarrow> int \<Rightarrow> database \<times> int" where
  "add_product db now event_id name price stock =
     (let product_id = seq_products db + 1
      in (db\<lparr>products := products db @
                 [\<lparr>pr_id = product_id, pr_event_id = event_id, pr_name = name,
                   pr_stock = stock, pr_price = price, pr_created_at = now\<rparr>],
              seq_products := product_id\<rparr>,
          product_id))"

definition delete_product :: "database \<Rightarrow> int \<Rightarrow> database \<times> bool" where
  "delete_product db product_id =
     (let sales_count =
            length (filter (\<lambda>s. sl_product_id s = product_id \<and> sl_cancelled s = False) (sales db))
      in if sales_count > 0 then (db, False)
         else
           (let rowcount = length (filter (\<lambda>p. pr_id p = product_id) (products db));
                success = (rowcount > 0)
            in (db\<lparr>products := filter (\<lambda>p. pr_id p \<noteq> product_id) (products db)\<rparr>, success)))"

definition get_products :: "database \<Rightarrow> int \<Rightarrow> (int \<times> string \<times> int \<times> int) list" where
  "get_products db event_id =
     map (\<lambda>p. (pr_id p, pr_name p, pr_price p, pr_stock p))
       (sort_key pr_name (filter (\<lambda>p. pr_event_id p = event_id) (products db)))"

definition record_sale :: "database \<Rightarrow> timestamp \<Rightarrow> int \<Rightarrow> int \<Rightarrow> int \<Rightarrow> int \<Rightarrow> database \<times> int" where
  "record_sale db current_time event_id product_id quantity total_price =
     (let sale_id = seq_sales db + 1
      in (db\<lparr>sales := sales db @
                 [\<lparr>sl_id = sale_id, sl_event_id = event_id, sl_product_id = product_id,
                   sl_quantity = quantity, sl_total_price = total_price,
                   sl_sale_time = current_time, sl_cancelled = False\<rparr>],
              seq_sales := sale_id\<rparr>,
          sale_id))"

definition update_stock :: "database \<Rightarrow> int \<Rightarrow> int \<Rightarrow> database \<times> bool" where
  "update_stock db product_id quantity_change =
     (let rowcount = length (filter (\<lambda>p. pr_id p = product_id) (products db));
          success = (rowcount > 0)
      in (db\<lparr>products :=
                 map (\<lambda>p. if pr_id p = product_id
                           then p\<lparr>pr_stock := pr_stock p + quantity_change\<rparr> else p)
                   (products db)\<rparr>,
          success))"

definition get_product_stock :: "database \<Rightarrow> int \<Rightarrow> int" where
  "get_product_stock db product_id =
     (case filter (\<lambda>p. pr_id p = product_id) (products db) of
        [] \<Rightarrow> 0
      | p # _ \<Rightarrow> pr_stock p)"

text \<open>
  The \<open>UPDATE\<close> of \<open>cancel_sale\<close> has the single condition \<open>id = ?\<close>; its rowcount is
  the number of rows the condition selects, whatever their flag was before.
\<close>

definition cancel_sale :: "database \<Rightarrow> int \<Rightarrow> database \<times> bool" where
  "cancel_sale db sale_id =
     (let rowcount = length (filter (\<lambda>s. sl_id s = sale_id) (sales db));
          success = (rowcount > 0)
      in (db\<lparr>sales :=
                 map (\<lambda>s. if sl_id s = sale_id then s\<lparr>sl_cancelled := True\<rparr> else s)
                   (sales db)\<rparr>,
          success))"

text \<open>A negative \<open>LIMIT\<close> means no bound.\<close>

definition sql_limit :: "int \<Rightarrow> 'a list \<Rightarrow> 'a list" where
  "sql_limit n rows = (if n < 0 then rows else take (nat n) rows)"

type_synonym history_row = "int \<times> string \<times> int \<times> int \<times> timestamp \<times> bool"

definition joined_sales :: "database \<Rightarrow> int \<Rightarrow> (sale_row \<times> product_row) list" where
  "joined_sales db event_id =
     concat (map (\<lambda>s. map (\<lambda>p. (s, p)) (filter (\<lambda>p. sl_product_id s = pr_id p) (products db)))
               (filter (\<lambda>s. sl_event_id s = event_id) (sales db)))"

definition get_recent_sales :: "database \<Rightarrow> int \<Rightarrow> int \<Rightarrow> history_row list" where
  "get_recent_sales db event_id limit =
     sql_limit limit
       (map (\<lambda>(s, p). (sl_id s, pr_name p, sl_quantity s, sl_total_price s,
                        sl_sale_time s, sl_cancelled s))
          (sort_key (\<lambda>(s, p). - int (sl_sale_time s)) (joined_sales db event_id)))"

definition get_sales_summary :: "database \<Rightarrow> int \<Rightarrow> int \<times> int \<times> int" where
  "get_sales_summary db event_id =
     (let total_sales =
            sum_list (map sl_total_price
              (filter (\<lambda>s. sl_event_id s = event_id \<and> sl_cancelled s = False) (sales db)));
          total_quantity =
            sum_list (map sl_quantity
              (filter (\<lambda>s. sl_event_id s = event_id \<and> sl_cancelled s = False) (sales db)));
          transaction_count =
            int (length
              (filter (\<lambda>s. sl_event_id s = event_id \<and> sl_cancelled s = False) (sales db)))
      in (total_sales, total_quantity, transaction_count))"










section \<open>The cart of \<open>POSApp\<close>\<close>

text \<open>
  \<open>cart_items\<close> is a list of tuples \<open>(product_id, name, price, quantity)\<close>. The
  handlers report a rejected input in a message box and return; the model returns the
  cart after the handler together with the error shown, if any. The three message boxes
  of the handlers below are the constructors of \<open>error\<close>: a malformed or out-of-range
  entry is a \<open>ValidationError\<close>, the stock guard an \<open>InsufficientStockError\<close> with the
  stock figure of its text.
\<close>

datatype invalid_input = EventNameMissing | DateMalformed | QuantityInvalid

datatype error = ValidationError invalid_input | InsufficientStockError int

type_synonym cart_item = "int \<times> string \<times> int \<times> int"

definition item_product_id :: "cart_item \<Rightarrow> int" where
  "item_product_id item = fst item"

definition item_name :: "cart_item \<Rightarrow> string" where
  "item_name item = fst (snd item)"

definition item_price :: "cart_item \<Rightarrow> int" where
  "item_price item = fst (snd (snd item))"

definition item_quantity :: "cart_item \<Rightarrow> int" where
  "item_quantity item = snd (snd (snd item))"

text \<open>
  The \<open>for ... else\<close> loop of \<open>add_to_cart\<close>: the first line of the product is replaced
  and the loop left; \<open>None\<close> is the loop running to its end, where the \<open>else\<close> appends.
\<close>

fun update_existing :: "cart_item list \<Rightarrow> int \<Rightarrow> string \<Rightarrow> int \<Rightarrow> int \<Rightarrow> cart_item list option" where
  "update_existing [] product_id name price quantity = None"
| "update_existing (item # rest) product_id name price quantity =
     (if item_product_id item = product_id
      then Some ((product_id, name, price, item_quantity item + quantity) # rest)
      else map_option (\<lambda>r. item # r) (update_existing rest product_id name price quantity))"

text \<open>
  The selected product is the tuple \<open>(product_id, name, price, stock)\<close> of
  \<open>get_products\<close>. The quantity entry is \<open>None\<close> when \<open>int\<close> rejects its text.
\<close>

definition add_to_cart ::
  "cart_item list \<Rightarrow> int \<times> string \<times> int \<times> int \<Rightarrow> int option \<Rightarrow> cart_item list \<times> error option" where
  "add_to_cart cart_items product entry =
     (case product of (product_id, name, price, stock) \<Rightarrow>
        (case entry of
           None \<Rightarrow> (cart_items, Some (ValidationError QuantityInvalid))
         | Some quantity \<Rightarrow>
             if quantity \<le> 0 then (cart_items, Some (ValidationError QuantityInvalid))
             else
               (let current_cart_qty =
                      sum_list (map item_quantity
                        (filter (\<lambda>item. item_product_id item = product_id) cart_items))
                in if current_cart_qty + quantity > stock
                   then (cart_items, Some (InsufficientStockError stock))
                   else
                     (case update_existing cart_items product_id name price quantity of
                        Some merged \<Rightarrow> (merged, None)
                      | None \<Rightarrow> (cart_items @ [(product_id, name, price, quantity)], None)))))"

definition remove_from_cart :: "cart_item list \<Rightarrow> string \<Rightarrow> cart_item list" where
  "remove_from_cart cart_items product_name =
     filter (\<lambda>item. item_name item \<noteq> product_name) cart_items"

definition clear_cart :: "cart_item list" where
  "clear_cart = []"

text \<open>
  The loop of \<open>checkout\<close>: each line is recorded as a sale and then taken from the
  stock. \<open>clock k\<close> is the wall clock when the \<open>k\<close>-th statement of the loop runs.
\<close>

fun checkout_loop :: "database \<Rightarrow> int \<Rightarrow> (nat \<Rightarrow> timestamp) \<Rightarrow> nat \<Rightarrow> cart_item list \<Rightarrow> database" where
  "checkout_loop db event_id clock k [] = db"
| "checkout_loop db event_id clock k (item # rest) =
     (let total_price = item_price item * item_quantity item;
          db1 = fst (record_sale db (clock k) event_id (item_product_id item)
                       (item_quantity item) total_price);
          db2 = fst (update_stock db1 (item_product_id item) (- item_quantity item))
      in checkout_loop db2 event_id clock (Suc k) rest)"

text \<open>
  \<open>checkout\<close> does nothing without a selected event, with an empty cart, or when the
  operator declines the confirmation; otherwise it runs the loop and clears the cart.
\<close>

definition checkout ::
  "database \<Rightarrow> int option \<Rightarrow> cart_item list \<Rightarrow> bool \<Rightarrow> (nat \<Rightarrow> timestamp) \<Rightarrow> database \<times> cart_item list" where
  "checkout db current_event_id cart_items confirmed clock =
     (case current_event_id of
        None \<Rightarrow> (db, cart_items)
      | Some event_id \<Rightarrow>
          if cart_items = [] then (db, cart_items)
          else if \<not> confirmed then (db, cart_items)
          else (checkout_loop db event_id clock 0 cart_items, clear_cart))"

section \<open>The dialogs and handlers of the application\<close>

text \<open>
  \<open>EventDialog.create_event\<close> reads the two entries and strips them; \<open>name\<close> and
  \<open>date\<close> below are the entries after \<open>strip()\<close>. The date is checked by the library
  call \<open>strptime(date, "%Y-%m-%d")\<close>, which is the parameter \<open>strptime_ok\<close>: true when
  the call returns, false when it raises \<open>ValueError\<close>. A rejected entry leaves
  \<open>result\<close> unset.
\<close>

definition event_dialog_create_event ::
  "(string \<Rightarrow> bool) \<Rightarrow> string \<Rightarrow> string \<Rightarrow> error + (string \<times> string)" where
  "event_dialog_create_event strptime_ok name date =
     (if name = [] then Inl (ValidationError EventNameMissing)
      else if \<not> strptime_ok date then Inl (ValidationError DateMalformed)
      else Inr (name, date))"

text \<open>
  \<open>POSApp.create_new_event\<close> is the only caller of \<open>POSDatabase.create_event\<close>: it
  opens the dialog and inserts the event only when the dialog left a result.
\<close>

definition create_new_event ::
  "(string \<Rightarrow> bool) \<Rightarrow> database \<Rightarrow> timestamp \<Rightarrow> string \<Rightarrow> string \<Rightarrow> database \<times> (error + int)" where
  "create_new_event strptime_ok db now name date =
     (case event_dialog_create_event strptime_ok name date of
        Inl e \<Rightarrow> (db, Inl e)
      | Inr (name', date') \<Rightarrow>
          (case create_event db now name' date' of (db', event_id) \<Rightarrow> (db', Inr event_id)))"

text \<open>
  What \<open>strptime\<close> accepts for the format \<open>%Y-%m-%d\<close> on ASCII text: four digits, a
  month written \<open>1[0-2]\<close>, \<open>0[1-9]\<close> or \<open>[1-9]\<close>, a day written \<open>3[0-1]\<close>,
  \<open>[1-2][0-9]\<close>, \<open>0[1-9]\<close>, \<open>[1-9]\<close> or a blank and \<open>[1-9]\<close>, nothing after the day,
  and a day that exists in that month of that year (years start at 1).
\<close>

definition is_digit :: "char \<Rightarrow> bool" where
  "is_digit c = (CHR ''0'' \<le> c \<and> c \<le> CHR ''9'')"

definition digit_value :: "char \<Rightarrow> nat" where
  "digit_value c = of_char c - 48"

definition parse_year :: "string \<Rightarrow> nat option" where
  "parse_year y =
     (case y of
        [a, b, c, d] \<Rightarrow>
          if is_digit a \<and> is_digit b \<and> is_digit c \<and> is_digit d
          then Some (1000 * digit_value a + 100 * digit_value b + 10 * digit_value c + digit_value d)
          else None
      | _ \<Rightarrow> None)"

definition parse_month :: "string \<Rightarrow> nat option" where
  "parse_month m =
     (case m of
        [a] \<Rightarrow> if is_digit a \<and> a \<noteq> CHR ''0'' then Some (digit_value a) else None
      | [a, b] \<Rightarrow>
          if a = CHR ''1'' \<and> CHR ''0'' \<le> b \<and> b \<le> CHR ''2'' then Some (10 + digit_value b)
          else if a = CHR ''0'' \<and> is_digit b \<and> b \<noteq> CHR ''0'' then Some (digit_value b)
          else None
      | _ \<Rightarrow> None)"

definition parse_day :: "string \<Rightarrow> nat option" where
  "parse_day d =
     (case d of
        [a] \<Rightarrow> if is_digit a \<and> a \<noteq> CHR ''0'' then Some (digit_value a) else None
      | [a, b] \<Rightarrow>
          if a = CHR ''3'' \<and> CHR ''0'' \<le> b \<and> b \<le> CHR ''1'' then Some (30 + digit_value b)
          else if CHR ''1'' \<le> a \<and> a \<le> CHR ''2'' \<and> is_digit b
            then Some (10 * digit_value a + digit_value b)
          else if (a = CHR ''0'' \<or> a = CHR '' '') \<and> is_digit b \<and> b \<noteq> CHR ''0''
            then Some (digit_value b)
          else None
      | _ \<Rightarrow> None)"

definition is_leap :: "nat \<Rightarrow> bool" where
  "is_leap y = (y mod 4 = 0 \<and> (y mod 100 \<noteq> 0 \<or> y mod 400 = 0))"

definition days_in_month :: "nat \<Rightarrow> nat \<Rightarrow> nat" where
  "days_in_month y m =
     (if m = 2 then (if is_leap y then 29 else 28)
      else if m = 4 \<or> m = 6 \<or> m = 9 \<or> m = 11 then 30
      else 31)"

definition strptime_ymd :: "string \<Rightarrow> bool" where
  "strptime_ymd date =
     (case parse_year (take 4 date) of
        None \<Rightarrow> False
      | Some y \<Rightarrow>
          (case drop 4 date of
             [] \<Rightarrow> False
           | sep # rest \<Rightarrow>
               if sep \<noteq> CHR ''-'' then False
               else
                 (case parse_month (takeWhile (\<lambda>c. c \<noteq> CHR ''-'') rest) of
                    None \<Rightarrow> False
                  | Some m \<Rightarrow>
                      (case dropWhile (\<lambda>c. c \<noteq> CHR ''-'') rest of
                         [] \<Rightarrow> False
                       | sep2 # day_text \<Rightarrow>
                           (case parse_day day_text of
                              None \<Rightarrow> False
                            | Some d \<Rightarrow> 1 \<le> y \<and> d \<le> days_in_month y m)))))"

text \<open>
  The history view shows a status text per sale, written by \<open>refresh_history\<close>:
  \<open>label_cancelled\<close> for a cancelled sale and \<open>label_valid\<close> otherwise (the UTF-8 bytes
  of the two words of the source). \<open>cancel_selected_sale\<close> refuses a row whose status
  text is \<open>label_torikeshi\<close>, the word of its own literal, asks for confirmation, and
  calls \<open>cancel_sale\<close>.
\<close>

definition label_cancelled :: string where
  "label_cancelled =
     [CHR 0xE3, CHR 0x82, CHR 0xAD, CHR 0xE3, CHR 0x83, CHR 0xA3, CHR 0xE3, CHR 0x83,
      CHR 0xB3, CHR 0xE3, CHR 0x82, CHR 0xBB, CHR 0xE3, CHR 0x83, CHR 0xAB]"

definition label_valid :: string where
  "label_valid = [CHR 0xE6, CHR 0x9C, CHR 0x89, CHR 0xE5, CHR 0x8A, CHR 0xB9]"

definition label_torikeshi :: string where
  "label_torikeshi = [CHR 0xE5, CHR 0x8F, CHR 0x96, CHR 0xE6, CHR 0xB6, CHR 0x88]"

definition history_status :: "bool \<Rightarrow> string" where
  "history_status cancelled = (if cancelled then label_cancelled else label_valid)"

datatype cancel_outcome = AlreadyCancelled | Declined | Cancelled | CancelFailed

definition cancel_selected_sale ::
  "database \<Rightarrow> int \<Rightarrow> string \<Rightarrow> bool \<Rightarrow> database \<times> cancel_outcome" where
  "cancel_selected_sale db sale_id status confirmed =
     (if status = label_torikeshi then (db, AlreadyCancelled)
      else if confirmed
        then (case cancel_sale db sale_id of
                (db', ok) \<Rightarrow> (db', if ok then Cancelled else CancelFailed))
        else (db, Declined))"

section \<open>Well-formed stores\<close>


section \<open>A store used in the examples\<close>

text \<open>
  The store after the event "Spring Fair" was created, the product "Sticker" (price 300,
  stock 10) added, and two stickers sold in one checkout.
\<close>

definition sold_db :: database where
  "sold_db =
     \<lparr>events = [\<lparr>ev_id = 1, ev_name = ''Spring Fair'', ev_date = ''2024-05-01'',
                  ev_created_at = 0\<rparr>],
      products = [\<lparr>pr_id = 1, pr_event_id = 1, pr_name = ''Sticker'', pr_stock = 8,
                    pr_price = 300, pr_created_at = 0\<rparr>],
      sales = [\<lparr>sl_id = 1, sl_event_id = 1, sl_product_id = 1, sl_quantity = 2,
                 sl_total_price = 600, sl_sale_time = 0, sl_cancelled = False\<rparr>],
      seq_events = 1, seq_products = 1, seq_sales = 1\<rparr>"

text \<open>
  A second event store: four products of event 1 and one of event 2. "Badge" and
  "Sticker" both have a revenue of 600, "Card" has one cancelled sale only, "Album" has
  no sale at all.
\<close>

definition fair_db :: database where
  "fair_db =
     \<lparr>events = [\<lparr>ev_id = 1, ev_name = ''Spring Fair'', ev_date = ''2024-05-01'', ev_created_at = 0\<rparr>,
                \<lparr>ev_id = 2, ev_name = ''Autumn Fair'', ev_date = ''2024-10-01'', ev_created_at = 1\<rparr>],
      products =
        [\<lparr>pr_id = 1, pr_event_id = 1, pr_name = ''Sticker'', pr_stock = 8, pr_price = 300, pr_created_at = 2\<rparr>,
         \<lparr>pr_id = 2, pr_event_id = 1, pr_name = ''Card'', pr_stock = 4, pr_price = 100, pr_created_at = 3\<rparr>,
         \<lparr>pr_id = 3, pr_event_id = 1, pr_name = ''Badge'', pr_stock = 2, pr_price = 200, pr_created_at = 4\<rparr>,
         \<lparr>pr_id = 4, pr_event_id = 1, pr_name = ''Album'', pr_stock = 5, pr_price = 1500, pr_created_at = 5\<rparr>,
         \<lparr>pr_id = 5, pr_event_id = 2, pr_name = ''Poster'', pr_stock = 9, pr_price = 800, pr_created_at = 6\<rparr>],
      sales =
        [\<lparr>sl_id = 1, sl_event_id = 1, sl_product_id = 1, sl_quantity = 2, sl_total_price = 600,
          sl_sale_time = 10, sl_cancelled = False\<rparr>,
         \<lparr>sl_id = 2, sl_event_id = 1, sl_product_id = 2, sl_quantity = 1, sl_total_price = 100,
          sl_sale_time = 11, sl_cancelled = True\<rparr>,
         \<lparr>sl_id = 3, sl_event_id = 1, sl_product_id = 3, sl_quantity = 1, sl_total_price = 200,
          sl_sale_time = 12, sl_cancelled = False\<rparr>,
         \<lparr>sl_id = 4, sl_event_id = 1, sl_product_id = 3, sl_quantity = 2, sl_total_price = 400,
          sl_sale_time = 12, sl_cancelled = False\<rparr>],
      seq_events = 2, seq_products = 5, seq_sales = 4\<rparr>"

section \<open>The vocabulary of the specification\<close>

text \<open>
  The definitions of this section follow the words of the specification; the theorems
  compare them with the definitions taken from the code.
\<close>

text \<open>The quantity already staged in the cart for a product.\<close>

definition staged_quantity :: "cart_item list \<Rightarrow> int \<Rightarrow> int" where
  "staged_quantity cart_items product_id =
     sum_list (map item_quantity (filter (\<lambda>item. item_product_id item = product_id) cart_items))"

text \<open>
  Merging a line into the cart: the existing line of the product gets the sum of the
  quantities, and a product without a line gets a new line at the end.
\<close>

definition merge_line :: "cart_item list \<Rightarrow> int \<Rightarrow> string \<Rightarrow> int \<Rightarrow> int \<Rightarrow> cart_item list" where
  "merge_line cart_items product_id name price quantity =
     (if product_id \<in> item_product_id ` set cart_items
      then map (\<lambda>item. if item_product_id item = product_id
                        then (product_id, name, price, item_quantity item + quantity) else item)
             cart_items
      else cart_items @ [(product_id, name, price, quantity)])"





section \<open>Sequences of calls\<close>






section \<open>Cancelling a sale\<close>

lemma cancel_map_erase_flag:
  "map (\<lambda>s. s\<lparr>sl_cancelled := True\<rparr>)
     (map (\<lambda>s. if sl_id s = sale_id then s\<lparr>sl_cancelled := True\<rparr> else s) xs)
   = map (\<lambda>s. s\<lparr>sl_cancelled := True\<rparr>) xs"
  by (induction xs) auto

lemma cancel_map_other_rows:
  "filter (\<lambda>s. sl_id s \<noteq> sale_id)
     (map (\<lambda>s. if sl_id s = sale_id then s\<lparr>sl_cancelled := True\<rparr> else s) xs)
   = filter (\<lambda>s. sl_id s \<noteq> sale_id) xs"
  by (induction xs) auto

lemma scenario_values:
  "(let db1 = fst (create_new_event strptime_ymd empty_database t0 ''Spring Fair'' ''2024-05-01'');
        db2 = fst (add_product db1 t1 1 ''Sticker'' 300 10);
        cart = fst (add_to_cart [] (1, ''Sticker'', 300, 10) (Some 2));
        db3 = fst (checkout db2 (Some 1) cart True clock);
        db4 = fst (cancel_sale db3 1)
    in map sl_total_price (sales db3) = [600] \<and> get_product_stock db3 1 = 8 \<and>
       get_sales_summary db3 1 = (600, 2, 1) \<and>
       get_sales_summary db4 1 = (0, 0, 0) \<and> get_product_stock db4 1 = 8)"
  by (simp add: Let_def create_new_event_def event_dialog_create_event_def strptime_ymd_def
      parse_year_def parse_month_def parse_day_def is_digit_def digit_value_def days_in_month_def
      is_leap_def create_event_def empty_database_def add_product_def add_to_cart_def
      item_product_id_def item_quantity_def item_price_def item_name_def checkout_def clear_cart_def
      record_sale_def update_stock_def cancel_sale_def get_product_stock_def get_sales_summary_def)

text \<open>
  Claim C5. Cancelling a sale does not restore stock. For every store and every sale
  identity, \<open>cancel_sale\<close> leaves the events, the products (hence every stock figure)
  and the identity counters as they were; the sales differ from the old ones in the
  cancelled flag only, and a sale with another identity is untouched. In the end-to-end
  scenario (event "Spring Fair", product "Sticker" at 300 with stock 10, two put in the
  cart and checked out) the one sale has total price 600, the stock is 8 and the summary
  (600, 2, 1); after cancelling that sale the summary is (0, 0, 0) and the stock is
  still 8.
\<close>

theorem cancel_sale_does_not_restore_stock:
  "events (fst (cancel_sale db sale_id)) = events db \<and>
   products (fst (cancel_sale db sale_id)) = products db \<and>
   seq_events (fst (cancel_sale db sale_id)) = seq_events db \<and>
   seq_products (fst (cancel_sale db sale_id)) = seq_products db \<and>
   seq_sales (fst (cancel_sale db sale_id)) = seq_sales db \<and>
   get_product_stock (fst (cancel_sale db sale_id)) product_id = get_product_stock db product_id \<and>
   map (\<lambda>s. s\<lparr>sl_cancelled := True\<rparr>) (sales (fst (cancel_sale db sale_id)))
     = map (\<lambda>s. s\<lparr>sl_cancelled := True\<rparr>) (sales db) \<and>
   filter (\<lambda>s. sl_id s \<noteq> sale_id) (sales (fst (cancel_sale db sale_id)))
     = filter (\<lambda>s. sl_id s \<noteq> sale_id) (sales db) \<and>
   (let db1 = fst (create_new_event strptime_ymd empty_database t0 ''Spring Fair'' ''2024-05-01'');
        db2 = fst (add_product db1 t1 1 ''Sticker'' 300 10);
        cart = fst (add_to_cart [] (1, ''Sticker'', 300, 10) (Some 2));
        db3 = fst (checkout db2 (Some 1) cart True clock);
        db4 = fst (cancel_sale db3 1)
    in map sl_total_price (sales db3) = [600] \<and> get_product_stock db3 1 = 8 \<and>
       get_sales_summary db3 1 = (600, 2, 1) \<and>
       get_sales_summary db4 1 = (0, 0, 0) \<and> get_product_stock db4 1 = 8)"
proof -
  have frame:
    "events (fst (cancel_sale db sale_id)) = events db \<and>
     products (fst (cancel_sale db sale_id)) = products db \<and>
     seq_events (fst (cancel_sale db sale_id)) = seq_events db \<and>
     seq_products (fst (cancel_sale db sale_id)) = seq_products db \<and>
     seq_sales (fst (cancel_sale db sale_id)) = seq_sales db \<and>
     get_product_stock (fst (cancel_sale db sale_id)) product_id = get_product_stock db product_id \<and>
     map (\<lambda>s. s\<lparr>sl_cancelled := True\<rparr>) (sales (fst (cancel_sale db sale_id)))
       = map (\<lambda>s. s\<lparr>sl_cancelled := True\<rparr>) (sales db) \<and>
     filter (\<lambda>s. sl_id s \<noteq> sale_id) (sales (fst (cancel_sale db sale_id)))
       = filter (\<lambda>s. sl_id s \<noteq> sale_id) (sales db)"
    using cancel_map_erase_flag cancel_map_other_rows
    by (simp add: cancel_sale_def Let_def get_product_stock_def)
  from frame scenario_values [of t0 t1 clock] show ?thesis
    by blast
qed

text \<open>What \<open>cancel_sale\<close> returns: whether a sale with that identity is stored.\<close>

lemma cancel_sale_returns_existence:
  "snd (cancel_sale db sale_id) = (sale_id \<in> sl_id ` set (sales db))"
  by (auto simp: cancel_sale_def Let_def filter_empty_conv)

text \<open>
  Claim C2. \<open>cancel_sale\<close> reports success for a sale that is already cancelled: in the
  example store, the first call cancels sale 1 and the second call on the same identity
  returns \<open>True\<close> again and changes nothing. The guard of \<open>cancel_selected_sale\<close> does
  not stop the second call either, since the status text shown for a cancelled sale is
  not the text the guard compares with. The call on an identity that no sale has
  returns \<open>False\<close>.
\<close>

theorem cancel_sale_twice_returns_true:
  "cancel_sale sold_db 1 = (sold_db\<lparr>sales := map (\<lambda>s. s\<lparr>sl_cancelled := True\<rparr>) (sales sold_db)\<rparr>, True) \<and>
   cancel_sale (fst (cancel_sale sold_db 1)) 1 = (fst (cancel_sale sold_db 1), True) \<and>
   cancel_selected_sale (fst (cancel_sale sold_db 1)) 1 (history_status True) True
     = (fst (cancel_sale sold_db 1), Cancelled) \<and>
   cancel_sale sold_db 2 = (sold_db, False)"
  by (simp add: cancel_sale_def sold_db_def cancel_selected_sale_def history_status_def
      label_cancelled_def label_torikeshi_def)

section \<open>Cancelled sales and the summaries\<close>
















section \<open>Deleting a product\<close>

text \<open>
  Claim C4, as stated, fails: for a product identity that no row has and that no sale
  references, \<open>delete_product\<close> returns \<open>False\<close>, although no non-cancelled sale
  references the product.
\<close>

theorem delete_product_absent_returns_false:
  "filter (\<lambda>s. sl_product_id s = 7 \<and> \<not> sl_cancelled s) (sales sold_db) = [] \<and>
   delete_product sold_db 7 = (sold_db, False)"
  by (simp add: delete_product_def sold_db_def)

text \<open>
  Claim C4, amended. \<open>delete_product\<close> returns a truth value and never an error. It
  returns \<open>True\<close> exactly when no non-cancelled sale references the product and the
  product exists. When it returns \<open>True\<close> the rows of that identity are removed and
  nothing else changes; when it returns \<open>False\<close> the store is unchanged.
\<close>

theorem delete_product_result:
  assumes "delete_product db product_id = (db', ok)"
  shows "ok = ((\<forall>s\<in>set (sales db). sl_product_id s = product_id \<longrightarrow> sl_cancelled s) \<and>
               product_id \<in> pr_id ` set (products db)) \<and>
         (ok \<longrightarrow> db' = db\<lparr>products := filter (\<lambda>p. pr_id p \<noteq> product_id) (products db)\<rparr> \<and>
                 product_id \<notin> pr_id ` set (products db')) \<and>
         (\<not> ok \<longrightarrow> db' = db)"
proof -
  let ?live = "filter (\<lambda>s. sl_product_id s = product_id \<and> sl_cancelled s = False) (sales db)"
  have live: "(0 < length ?live) = (\<exists>s\<in>set (sales db). sl_product_id s = product_id \<and> \<not> sl_cancelled s)"
    by (auto simp: filter_empty_conv)
  have rows: "(0 < length (filter (\<lambda>p. pr_id p = product_id) (products db)))
              = (product_id \<in> pr_id ` set (products db))"
    by (auto simp: filter_empty_conv)
  have result: "ok = ((\<forall>s\<in>set (sales db). sl_product_id s = product_id \<longrightarrow> sl_cancelled s) \<and>
               product_id \<in> pr_id ` set (products db))"
    using assms live rows by (auto simp: delete_product_def Let_def split: if_splits)
  have removed: "db' = db\<lparr>products := filter (\<lambda>p. pr_id p \<noteq> product_id) (products db)\<rparr>" if ok
    using assms that by (auto simp: delete_product_def Let_def split: if_splits)
  have gone: "product_id \<notin> pr_id ` set (products db')" if ok
    using removed [OF that] by auto
  have kept: "db' = db" if nok: "\<not> ok"
  proof (cases "0 < length ?live")
    case True
    then show ?thesis using assms by (simp add: delete_product_def Let_def)
  next
    case False
    then have absent: "product_id \<notin> pr_id ` set (products db)"
      using assms nok rows by (auto simp: delete_product_def Let_def)
    then have "filter (\<lambda>p. pr_id p \<noteq> product_id) (products db) = products db"
      by (intro filter_True) auto
    then show ?thesis using assms False by (simp add: delete_product_def Let_def)
  qed
  show ?thesis
    using result removed gone kept by blast
qed

theorem delete_product_result_witness:
  "delete_product sold_db 1 = (sold_db, False) \<and>
   sl_product_id (hd (sales sold_db)) = 1 \<and> \<not> sl_cancelled (hd (sales sold_db)) \<and>
   delete_product (fst (cancel_sale sold_db 1)) 1
     = ((fst (cancel_sale sold_db 1))\<lparr>products := []\<rparr>, True) \<and>
   1 \<in> pr_id ` set (products (fst (cancel_sale sold_db 1)))"
proof -
  have a: "delete_product sold_db 1 = (fst (delete_product sold_db 1), snd (delete_product sold_db 1))"
    by simp
  have b: "delete_product (fst (cancel_sale sold_db 1)) 1
           = (fst (delete_product (fst (cancel_sale sold_db 1)) 1),
              snd (delete_product (fst (cancel_sale sold_db 1)) 1))"
    by simp
  from delete_product_result [OF a] delete_product_result [OF b]
  show ?thesis
    by (simp add: sold_db_def cancel_sale_def delete_product_def)
qed

lemma set_sql_limit: "set (sql_limit n rows) \<subseteq> set rows"
  by (auto simp: sql_limit_def dest: in_set_takeD)

lemma joined_sales_members:
  "(s, p) \<in> set (joined_sales db event_id) \<Longrightarrow>
     s \<in> set (sales db) \<and> p \<in> set (products db) \<and> sl_product_id s = pr_id p \<and> sl_event_id s = event_id"
  by (auto simp: joined_sales_def)

lemma recent_sales_origin:
  assumes "row \<in> set (get_recent_sales db event_id limit)"
  shows "\<exists>s p. s \<in> set (sales db) \<and> p \<in> set (products db) \<and> sl_product_id s = pr_id p \<and>
               sl_event_id s = event_id \<and> fst row = sl_id s"
proof -
  from assms set_sql_limit [of limit]
  obtain s p where "(s, p) \<in> set (joined_sales db event_id)" and "fst row = sl_id s"
    unfolding get_recent_sales_def by fastforce
  with joined_sales_members [of s p db event_id] show ?thesis by blast
qed

lemma same_id_same_sale:
  "distinct (map sl_id xs) \<Longrightarrow> s \<in> set xs \<Longrightarrow> s' \<in> set xs \<Longrightarrow> sl_id s = sl_id s' \<Longrightarrow> s = s'"
  by (metis distinct_map inj_on_def)

text \<open>
  Claim C10. Sale identities being unique, let every sale that references an existing
  product be cancelled. Then \<open>delete_product\<close> returns \<open>True\<close> and removes the product;
  the sales relation is what it was, so the cancelled sales of the product are still
  stored; and none of them appears in \<open>get_recent_sales\<close>, for any event and any
  limit, since that query joins each sale with its product.
\<close>

theorem deleted_product_hides_cancelled_sales:
  assumes "distinct (map sl_id (sales db))"
    and "product_id \<in> pr_id ` set (products db)"
    and "\<forall>s\<in>set (sales db). sl_product_id s = product_id \<longrightarrow> sl_cancelled s"
    and "db' = fst (delete_product db product_id)"
  shows "snd (delete_product db product_id) = True \<and>
         product_id \<notin> pr_id ` set (products db') \<and>
         sales db' = sales db \<and>
         (\<forall>s\<in>set (sales db). sl_product_id s = product_id \<longrightarrow>
            s \<in> set (sales db') \<and>
            sl_id s \<notin> fst ` set (get_recent_sales db' event_id limit))"
proof -
  have none_live: "filter (\<lambda>s. sl_product_id s = product_id \<and> sl_cancelled s = False) (sales db) = []"
    using assms(3) by (auto simp: filter_empty_conv)
  have del: "delete_product db product_id
             = (db\<lparr>products := filter (\<lambda>p. pr_id p \<noteq> product_id) (products db)\<rparr>, True)"
    using none_live assms(2) by (auto simp: delete_product_def Let_def filter_empty_conv)
  have prods: "products db' = filter (\<lambda>p. pr_id p \<noteq> product_id) (products db)"
    and sls: "sales db' = sales db"
    using del assms(4) by simp_all
  have hidden: "sl_id s \<notin> fst ` set (get_recent_sales db' event_id limit)"
    if s_in: "s \<in> set (sales db)" and ref: "sl_product_id s = product_id" for s
  proof
    assume "sl_id s \<in> fst ` set (get_recent_sales db' event_id limit)"
    then obtain row where "row \<in> set (get_recent_sales db' event_id limit)" and "fst row = sl_id s"
      by auto
    with recent_sales_origin [of row db' event_id limit]
    obtain s' p where s': "s' \<in> set (sales db')" and p: "p \<in> set (products db')"
      and join: "sl_product_id s' = pr_id p" and same: "sl_id s' = sl_id s"
      by auto
    from s' sls same s_in assms(1) have "s' = s"
      by (auto intro: same_id_same_sale)
    with join ref p prods show False by auto
  qed
  show ?thesis
    using del prods sls hidden by auto
qed

theorem deleted_product_hides_cancelled_sales_witness:
  "distinct (map sl_id (sales fair_db)) \<and> 2 \<in> pr_id ` set (products fair_db) \<and>
   map sl_id (filter (\<lambda>s. sl_product_id s = 2) (sales fair_db)) = [2] \<and>
   2 \<in> fst ` set (get_recent_sales fair_db 1 20) \<and>
   snd (delete_product fair_db 2) = True \<and>
   sales (fst (delete_product fair_db 2)) = sales fair_db \<and>
   2 \<notin> fst ` set (get_recent_sales (fst (delete_product fair_db 2)) 1 20)"
proof -
  let ?s = "\<lparr>sl_id = 2, sl_event_id = 1, sl_product_id = 2, sl_quantity = 1, sl_total_price = 100,
             sl_sale_time = 11, sl_cancelled = True\<rparr>"
  have d: "distinct (map sl_id (sales fair_db))" by (simp add: fair_db_def)
  have e: "2 \<in> pr_id ` set (products fair_db)" by (simp add: fair_db_def)
  have c: "\<forall>s\<in>set (sales fair_db). sl_product_id s = 2 \<longrightarrow> sl_cancelled s"
    by (simp add: fair_db_def)
  have m: "?s \<in> set (sales fair_db)" by (simp add: fair_db_def)
  have shown: "2 \<in> fst ` set (get_recent_sales fair_db 1 20)"
    by (simp add: get_recent_sales_def joined_sales_def sql_limit_def fair_db_def)
  have only: "map sl_id (filter (\<lambda>s. sl_product_id s = 2) (sales fair_db)) = [2]"
    by (simp add: fair_db_def)
  from deleted_product_hides_cancelled_sales [OF d e c refl, of 1 20] m
  have "snd (delete_product fair_db 2) = True"
    and "sales (fst (delete_product fair_db 2)) = sales fair_db"
    and "2 \<notin> fst ` set (get_recent_sales (fst (delete_product fair_db 2)) 1 20)"
    by force+
  with d e shown only show ?thesis by blast
qed

section \<open>Adding a line to the cart\<close>

lemma item_tuple [simp]:
  "item_product_id (a, b, c, d) = a" "item_name (a, b, c, d) = b"
  "item_price (a, b, c, d) = c" "item_quantity (a, b, c, d) = d"
  by (simp_all add: item_product_id_def item_name_def item_price_def item_quantity_def)

lemma update_existing_absent:
  "product_id \<notin> item_product_id ` set cart_items \<Longrightarrow>
     update_existing cart_items product_id name price quantity = None"
  by (induction cart_items) auto

lemma map_other_lines:
  "product_id \<notin> item_product_id ` set rest \<Longrightarrow>
     map (\<lambda>item. if item_product_id item = product_id then f item else item) rest = rest"
  by (induction rest) auto

lemma update_existing_present:
  "distinct (map item_product_id cart_items) \<Longrightarrow> product_id \<in> item_product_id ` set cart_items \<Longrightarrow>
     update_existing cart_items product_id name price quantity
     = Some (map (\<lambda>item. if item_product_id item = product_id
                          then (product_id, name, price, item_quantity item + quantity) else item)
               cart_items)"
proof (induction cart_items)
  case Nil
  then show ?case by simp
next
  case (Cons item rest)
  show ?case
  proof (cases "item_product_id item = product_id")
    case True
    with Cons.prems have "product_id \<notin> item_product_id ` set rest" by auto
    then show ?thesis using True by (simp add: map_other_lines)
  next
    case False
    with Cons show ?thesis by auto
  qed
qed

lemma merge_line_ids:
  "map item_product_id (merge_line cart_items product_id name price quantity)
   = (if product_id \<in> item_product_id ` set cart_items then map item_product_id cart_items
      else map item_product_id cart_items @ [product_id])"
proof -
  have "map item_product_id (map (\<lambda>item. if item_product_id item = product_id
            then (product_id, name, price, item_quantity item + quantity) else item) xs)
        = map item_product_id xs" for xs
    by (induction xs) auto
  then show ?thesis by (simp add: merge_line_def)
qed

lemma staged_after_update:
  "distinct (map item_product_id xs) \<Longrightarrow> product_id \<in> item_product_id ` set xs \<Longrightarrow>
   sum_list (map item_quantity (filter (\<lambda>item. item_product_id item = product_id)
     (map (\<lambda>item. if item_product_id item = product_id
                   then (product_id, name, price, item_quantity item + quantity) else item) xs)))
   = sum_list (map item_quantity (filter (\<lambda>item. item_product_id item = product_id) xs)) + quantity"
proof (induction xs)
  case Nil
  then show ?case by simp
next
  case (Cons item rest)
  show ?case
  proof (cases "item_product_id item = product_id")
    case True
    with Cons.prems have absent: "product_id \<notin> item_product_id ` set rest" by auto
    then have "filter (\<lambda>i. item_product_id i = product_id) rest = []"
      by (auto simp: filter_empty_conv)
    with True absent show ?thesis
      by (simp add: map_other_lines)
  next
    case False
    with Cons show ?thesis by auto
  qed
qed

lemma staged_merge_line:
  "distinct (map item_product_id cart_items) \<Longrightarrow>
   staged_quantity (merge_line cart_items product_id name price quantity) product_id
   = staged_quantity cart_items product_id + quantity"
  by (simp add: staged_quantity_def merge_line_def staged_after_update)

lemma merge_line_other_lines:
  "filter (\<lambda>item. item_product_id item \<noteq> product_id) (merge_line cart_items product_id name price quantity)
   = filter (\<lambda>item. item_product_id item \<noteq> product_id) cart_items"
proof -
  have "filter (\<lambda>item. item_product_id item \<noteq> product_id)
          (map (\<lambda>item. if item_product_id item = product_id
                        then (product_id, name, price, item_quantity item + quantity) else item) xs)
        = filter (\<lambda>item. item_product_id item \<noteq> product_id) xs" for xs
    by (induction xs) auto
  then show ?thesis by (simp add: merge_line_def)
qed

text \<open>
  Claim C7. Let the cart hold at most one line per product. A quantity that is not a
  number, or is zero or negative, is refused with a validation error. Otherwise, when
  the quantity already staged for the product plus the new quantity exceeds the stock,
  the stock guard fires and reports the stock; in both cases the cart is unchanged.
  Otherwise the line is merged: the line of the product gets the sum of the quantities,
  or a new line is appended, every other line stays, and the cart still holds at most
  one line per product. Adding 2 and then 3 of a product gives one line of quantity 5;
  with stock 4 and 2 staged, adding 3 reports stock 4.
\<close>

theorem add_to_cart_result:
  assumes "distinct (map item_product_id cart_items)"
  shows
   "add_to_cart cart_items (product_id, name, price, stock) None
      = (cart_items, Some (ValidationError QuantityInvalid)) \<and>
    add_to_cart cart_items (product_id, name, price, stock) (Some quantity) =
      (if quantity \<le> 0 then (cart_items, Some (ValidationError QuantityInvalid))
       else if staged_quantity cart_items product_id + quantity > stock
         then (cart_items, Some (InsufficientStockError stock))
       else (merge_line cart_items product_id name price quantity, None)) \<and>
    distinct (map item_product_id
      (fst (add_to_cart cart_items (product_id, name, price, stock) (Some quantity)))) \<and>
    staged_quantity (merge_line cart_items product_id name price quantity) product_id
      = staged_quantity cart_items product_id + quantity \<and>
    filter (\<lambda>item. item_product_id item \<noteq> product_id)
        (merge_line cart_items product_id name price quantity)
      = filter (\<lambda>item. item_product_id item \<noteq> product_id) cart_items \<and>
    fst (add_to_cart (fst (add_to_cart [] (product_id, name, price, 10) (Some 2)))
           (product_id, name, price, 10) (Some 3)) = [(product_id, name, price, 5)] \<and>
    add_to_cart [(product_id, name, price, 2)] (product_id, name, price, 4) (Some 3)
      = ([(product_id, name, price, 2)], Some (InsufficientStockError 4))"
proof -
  have unparsed: "add_to_cart cart_items (product_id, name, price, stock) None
      = (cart_items, Some (ValidationError QuantityInvalid))"
    by (simp add: add_to_cart_def)
  have result: "add_to_cart cart_items (product_id, name, price, stock) (Some quantity) =
      (if quantity \<le> 0 then (cart_items, Some (ValidationError QuantityInvalid))
       else if staged_quantity cart_items product_id + quantity > stock
         then (cart_items, Some (InsufficientStockError stock))
       else (merge_line cart_items product_id name price quantity, None))"
  proof (cases "product_id \<in> item_product_id ` set cart_items")
    case True
    then show ?thesis
      using update_existing_present [OF assms True]
      by (simp add: add_to_cart_def Let_def staged_quantity_def merge_line_def)
  next
    case False
    then show ?thesis
      using update_existing_absent [OF False]
      by (simp add: add_to_cart_def Let_def staged_quantity_def merge_line_def)
  qed
  have dist: "distinct (map item_product_id (merge_line cart_items product_id name price quantity))"
    using assms by (auto simp: merge_line_ids)
  have ex1: "fst (add_to_cart (fst (add_to_cart [] (product_id, name, price, 10) (Some 2)))
           (product_id, name, price, 10) (Some 3)) = [(product_id, name, price, 5)]"
    by (simp add: add_to_cart_def)
  have ex2: "add_to_cart [(product_id, name, price, 2)] (product_id, name, price, 4) (Some 3)
      = ([(product_id, name, price, 2)], Some (InsufficientStockError 4))"
    by (simp add: add_to_cart_def)
  have dist': "distinct (map item_product_id
      (fst (add_to_cart cart_items (product_id, name, price, stock) (Some quantity))))"
    using result dist assms by simp
  show ?thesis
    using unparsed result dist' staged_merge_line [OF assms] merge_line_other_lines ex1 ex2
    by blast
qed

theorem add_to_cart_result_witness:
  "distinct (map item_product_id [(1, ''Sticker'', 300, 2), (2, ''Card'', 100, 1)]) \<and>
   add_to_cart [(1, ''Sticker'', 300, 2), (2, ''Card'', 100, 1)] (1, ''Sticker'', 300, 8) (Some 0)
     = ([(1, ''Sticker'', 300, 2), (2, ''Card'', 100, 1)], Some (ValidationError QuantityInvalid)) \<and>
   add_to_cart [(1, ''Sticker'', 300, 2), (2, ''Card'', 100, 1)] (1, ''Sticker'', 300, 4) (Some 3)
     = ([(1, ''Sticker'', 300, 2), (2, ''Card'', 100, 1)], Some (InsufficientStockError 4)) \<and>
   add_to_cart [(1, ''Sticker'', 300, 2), (2, ''Card'', 100, 1)] (1, ''Sticker'', 300, 8) (Some 3)
     = ([(1, ''Sticker'', 300, 5), (2, ''Card'', 100, 1)], None) \<and>
   add_to_cart [(1, ''Sticker'', 300, 2), (2, ''Card'', 100, 1)] (3, ''Badge'', 200, 2) (Some 2)
     = ([(1, ''Sticker'', 300, 2), (2, ''Card'', 100, 1), (3, ''Badge'', 200, 2)], None)"
proof -
  let ?cart = "[(1, ''Sticker'', 300, 2), (2, ''Card'', 100, 1)] :: cart_item list"
  have d: "distinct (map item_product_id ?cart)" by simp
  from add_to_cart_result [OF d, of 1 "''Sticker''" 300 8 0]
    add_to_cart_result [OF d, of 1 "''Sticker''" 300 4 3]
    add_to_cart_result [OF d, of 1 "''Sticker''" 300 8 3]
    add_to_cart_result [OF d, of 3 "''Badge''" 200 2 2]
  show ?thesis
    by (simp add: staged_quantity_def merge_line_def)
qed

section \<open>Stock never negative\<close>
























section \<open>Creating and listing events\<close>




lemma insort_after_smaller:
  "f x < f y \<Longrightarrow> insort_key f y (x # zs) = x # insort_key f y zs"
  by (metis insort_key.simps(2) leD)

lemma newest_row_sorts_first:
  "\<forall>y\<in>set xs. f x < f y \<Longrightarrow> sort_key f (xs @ [x]) = x # sort_key f xs"
proof -
  assume less: "\<forall>y\<in>set xs. f x < f y"
  have "foldr (insort_key f) ys [x] = x # foldr (insort_key f) ys []" if "\<forall>y\<in>set ys. f x < f y" for ys
    using that by (induction ys) (auto simp: insort_after_smaller)
  with less show ?thesis by (simp add: sort_key_def)
qed

text \<open>
  An event created in a later second than every stored event is listed first.
\<close>

lemma get_events_new_first_when_later:
  assumes "\<forall>e\<in>set (events db). ev_created_at e < now"
  shows "hd (get_events (fst (create_event db now name date)))
         = (snd (create_event db now name date), name, date)"
  using assms by (simp add: get_events_def create_event_def Let_def newest_row_sorts_first)

text \<open>
  Claim C9. The listing is ordered by the creation timestamp alone, which has a
  resolution of one second. Two events created within the same second (here second 5)
  have equal timestamps, and the listing returns the older one first: the event just
  created, identity 2, is the second element.
\<close>

theorem get_events_same_second_old_first:
  "snd (create_event (fst (create_event empty_database 5 ''A'' ''2024-05-01'')) 5 ''B'' ''2024-05-02'') = 2 \<and>
   get_events (fst (create_event (fst (create_event empty_database 5 ''A'' ''2024-05-01'')) 5
                      ''B'' ''2024-05-02''))
     = [(1, ''A'', ''2024-05-01''), (2, ''B'', ''2024-05-02'')]"
  by (simp add: create_event_def empty_database_def get_events_def Let_def)

section \<open>The per-product summary\<close>


















end
